theory Spec2Isabelle
  imports Complex_Main "HOL-Library.Sublist" "HOL-Library.Char_ord" "HOL-Library.List_Lexorder"
begin

section \<open>Python strings, lists and paths\<close>

text \<open>
  The two modules are Python. Strings are \<open>string\<close>; \<open>sorted\<close> on a list of strings is
  \<open>sort\<close> under the lexicographic order of the characters. Paths follow \<open>posixpath\<close>.
\<close>

datatype error = IndexError | ValueError | AttributeError | RuntimeError | FileNotFoundError

text \<open>
  A handler either returns or raises. A raised exception does not undo what the handler
  did before it, so both endings carry the state reached.
\<close>

datatype 's outcome = Returned 's | Raised error 's

fun final_state :: "'s outcome \<Rightarrow> 's" where
  "final_state (Returned s) = s"
| "final_state (Raised e s) = s"

fun has_returned :: "'s outcome \<Rightarrow> bool" where
  "has_returned (Returned s) = True"
| "has_returned (Raised e s) = False"

text \<open>\<open>s.find(sub)\<close>: the index of the first occurrence of \<open>sub\<close> in \<open>s\<close>, or -1.\<close>

fun py_find_from :: "string \<Rightarrow> string \<Rightarrow> int \<Rightarrow> int" where
  "py_find_from sub [] i = (if sub = [] then i else - 1)"
| "py_find_from sub (c # cs) i =
     (if prefix sub (c # cs) then i else py_find_from sub cs (i + 1))"

definition py_find :: "string \<Rightarrow> string \<Rightarrow> int" where
  "py_find s sub = py_find_from sub s 0"

text \<open>\<open>s[:i]\<close>, where a negative \<open>i\<close> counts from the end.\<close>

definition py_slice_to :: "'a list \<Rightarrow> int \<Rightarrow> 'a list" where
  "py_slice_to s i =
     (if 0 \<le> i then take (nat i) s else take (nat (int (length s) + i)) s)"

text \<open>\<open>a in b\<close> on strings: \<open>a\<close> occurs in \<open>b\<close> as a contiguous substring.\<close>

definition py_in :: "string \<Rightarrow> string \<Rightarrow> bool" where
  "py_in a b = sublist a b"

text \<open>\<open>xs[i]\<close> on a list: negative indices count from the end, out of range raises.\<close>

definition py_index :: "'a list \<Rightarrow> int \<Rightarrow> 'a option" where
  "py_index xs i =
     (let n = int (length xs); j = (if i < 0 then n + i else i)
      in if 0 \<le> j \<and> j < n then Some (xs ! nat j) else None)"

definition os_path_basename :: "string \<Rightarrow> string" where
  "os_path_basename p = rev (takeWhile (\<lambda>c. c \<noteq> CHR ''/'') (rev p))"

definition os_path_dirname :: "string \<Rightarrow> string" where
  "os_path_dirname p =
     (let head = rev (dropWhile (\<lambda>c. c \<noteq> CHR ''/'') (rev p))
      in if head \<noteq> [] \<and> \<not> list_all (\<lambda>c. c = CHR ''/'') head
         then rev (dropWhile (\<lambda>c. c = CHR ''/'') (rev head)) else head)"

definition os_path_join :: "string \<Rightarrow> string \<Rightarrow> string" where
  "os_path_join a b =
     (if prefix ''/'' b then b
      else if a = [] \<or> suffix ''/'' a then a @ b
      else a @ ''/'' @ b)"

text \<open>
  \<open>fnmatch\<close> for the patterns of these modules, whose only wildcard is \<open>*\<close>
  (\<open>*.nrrd\<close>, \<open>*.nii\<close>, \<open>*.nii.gz\<close>, \<open>image_*.png\<close>): name first, pattern second.
\<close>

fun fnmatch :: "string \<Rightarrow> string \<Rightarrow> bool" where
  "fnmatch [] [] = True"
| "fnmatch (c # cs) [] = False"
| "fnmatch [] (p # ps) = (p = CHR ''*'' \<and> fnmatch [] ps)"
| "fnmatch (c # cs) (p # ps) =
     (if p = CHR ''*'' then fnmatch (c # cs) ps \<or> fnmatch cs (p # ps)
      else c = p \<and> fnmatch cs ps)"

text \<open>
  The file system is the list of the paths of its files, each written as
  \<open>os.path.join(directory, name)\<close>. \<open>glob.glob(pathname)\<close> returns the files of the
  directory part of \<open>pathname\<close> whose name matches its last component; a name that starts
  with a dot is skipped unless the pattern starts with a dot. The directory part is taken
  as it is written. The order of the result is the file system's.
\<close>

definition ishidden :: "string \<Rightarrow> bool" where
  "ishidden name = prefix ''.'' name"

definition path_matches :: "string \<Rightarrow> string \<Rightarrow> bool" where
  "path_matches pathname p =
     (os_path_dirname p = os_path_dirname pathname
      \<and> fnmatch (os_path_basename p) (os_path_basename pathname)
      \<and> (ishidden (os_path_basename pathname) \<or> \<not> ishidden (os_path_basename p)))"

definition glob_glob :: "string list \<Rightarrow> string \<Rightarrow> string list" where
  "glob_glob fs pathname = filter (path_matches pathname) (remdups fs)"

section \<open>The host application\<close>

text \<open>
  Voxel values and thresholds are real numbers. A volume node has a name, its voxel array
  (flattened) and the geometry of its image; a segmentation node has a name, its segments
  in order, and the reference geometry if one was set. A binary labelmap taken from a
  segment is an array of 0 and 1.
\<close>

record volumeNode =
  volume_name :: string
  voxels :: "real list"
  geometry :: "nat list"

record segment =
  segment_id :: string
  segment_name :: string
  labelmap :: "real list"

record segmentationNode =
  segmentation_name :: string
  segments :: "segment list"
  referenceGeometry :: "nat list option"

datatype printed = PStr string | PInt int

datatype exported = ExportedVolume volumeNode | ExportedLabelmap segmentationNode

datatype temp_node = LabelmapVolumeNode | LabelmapColorNode

text \<open>
  Calls into the host (the Qt widgets that have no state of their own in the model, the
  MRML scene, the rendering and segmentation logic, the screen capture and the video
  encoder) are recorded in the order they are made, with their arguments.
\<close>

datatype action =
    warningDisplay string
  | py_print "printed list"
  | mrmlScene_Clear int
  | loadVolume string
  | loadSegmentation string
  | CreateDefaultVolumeRenderingNodes volumeNode
  | VolumePropertyNode_Copy_preset string
  | displayNode_SetVisibility int
  | threeDView_resetFocalPoint
  | arrayFromVolumeModified volumeNode
  | layoutLogic_MaximizeView string
  | capture3dViewRotation string int int int int string string
  | write_videofile "string list" int string
  | editor_setSegmentationNode segmentationNode
  | editor_setSourceVolumeNode volumeNode
  | editor_setMasterVolumeNode volumeNode
  | AddNewNodeByClass string
  | CreateDefaultDisplayNodes
  | minidom_parse string
  | render_setMRMLVolumePropertyNode
  | mrmlScene_AddNode_preset string
  | render_setCurrentNode string
  | ExportAllSegmentsToLabelmapNode segmentationNode
  | exportNode exported string
  | saveNode exported string
  | mrmlScene_RemoveNode temp_node

text \<open>
  What the host answers is part of the host's state: the files and directories that
  exist, what loading a file gives (\<open>None\<close> when the host cannot load it and raises), the
  view nodes of the layout, the files a screen capture writes, whether the encoder manages
  to write a video, what \<open>float(text)\<close> gives (\<open>None\<close> when it raises) and how a number is
  formatted, the array that \<open>arrayFromSegmentBinaryLabelmap\<close> gives for a segment and a
  reference volume, the id the host gives a new segment, the visibility of a new display
  node, the presets listed in \<open>presets.xml\<close>, and the path of a module.
\<close>

record host =
  files :: "string list"
  dirs :: "string list"
  calls :: "action list"
  loadVolume_result :: "string \<Rightarrow> volumeNode option"
  loadSegmentation_result :: "string \<Rightarrow> segmentationNode option"
  py_float :: "string \<Rightarrow> real option"
  py_format :: "real \<Rightarrow> string"
  segmentArray_result :: "segmentationNode \<Rightarrow> string \<Rightarrow> volumeNode \<Rightarrow> real list"
  GenerateUniqueSegmentID :: "string list \<Rightarrow> string \<Rightarrow> string"
  new_displayNode_visibility :: int
  preset_names :: "string list"
  modulePath :: "string \<Rightarrow> string"
  viewNodes :: "string list"
  capture_result :: "string \<Rightarrow> string \<Rightarrow> nat \<Rightarrow> string list"
  write_videofile_ok :: "string list \<Rightarrow> string \<Rightarrow> bool"

definition call :: "action \<Rightarrow> host \<Rightarrow> host" where
  "call a h = h\<lparr>calls := calls h @ [a]\<rparr>"

text \<open>\<open>voxels[mask] = value\<close> of numpy: the mask must have the array's shape.\<close>

definition numpy_setitem_mask :: "real list \<Rightarrow> bool list \<Rightarrow> real \<Rightarrow> real list option" where
  "numpy_setitem_mask arr msk v =
     (if length arr \<noteq> length msk then None
      else Some (map (\<lambda>(a, m). if m then v else a) (zip arr msk)))"

section \<open>ImplantVideoWidget\<close>

record ImplantVideoWidget =
  saveDirectory_iv :: string
  imageDirectory_iv :: string
  segDirectory_iv :: string
  currentVolumeNode_iv :: "volumeNode option"
  current_file_iv :: int
  total_files_iv :: int
  fileset_iv :: "string list"
  FileComboBox_items_iv :: "string list"
  FileComboBox_currentIndex_iv :: int




definition RemoveCurrentScene_iv :: "host \<Rightarrow> host" where
  "RemoveCurrentScene_iv h = call (mrmlScene_Clear 0) h"

definition onPre_iv :: "host \<Rightarrow> ImplantVideoWidget \<Rightarrow> (host \<times> ImplantVideoWidget) outcome" where
  "onPre_iv h w =
     (if current_file_iv w = 0
      then Returned (call (warningDisplay ''This is first file'') h, w)
      else
        (let h1 = RemoveCurrentScene_iv h;
             w1 = w\<lparr>current_file_iv := current_file_iv w - 1\<rparr>
         in Returned (h1, w1\<lparr>FileComboBox_currentIndex_iv := current_file_iv w1\<rparr>)))"

definition onNext_iv :: "host \<Rightarrow> ImplantVideoWidget \<Rightarrow> (host \<times> ImplantVideoWidget) outcome" where
  "onNext_iv h w =
     (if current_file_iv w + 1 = total_files_iv w
      then Returned (call (warningDisplay ''This is last file'') h, w)
      else
        (let h1 = RemoveCurrentScene_iv h;
             w1 = w\<lparr>current_file_iv := current_file_iv w + 1\<rparr>
         in Returned (h1, w1\<lparr>FileComboBox_currentIndex_iv := current_file_iv w1\<rparr>)))"

text \<open>
  \<open>LoadFiles\<close>. The warning of the second branch formats the two directories into its text.
\<close>

definition no_file_warning :: "string \<Rightarrow> string \<Rightarrow> string" where
  "no_file_warning imageDir segDir =
     ''There are no file to load. Please check image folder and segmentation folder''
     @ [CHR 0x0A] @ ''                    image folder : '' @ imageDir
     @ [CHR 0x0A] @ ''                    segmentation folder :'' @ segDir"

definition thresholdValue :: real where
  "thresholdValue = 2000"

definition LoadFiles_iv :: "host \<Rightarrow> ImplantVideoWidget \<Rightarrow> (host \<times> ImplantVideoWidget) outcome" where
  "LoadFiles_iv h w =
     (if imageDirectory_iv w = ''''
      then Returned (call (warningDisplay ''Please choose image folder'') h, w)
      else if total_files_iv w = 0
      then Returned (call (warningDisplay
                       (no_file_warning (imageDirectory_iv w) (segDirectory_iv w))) h, w)
      else
        (case py_index (fileset_iv w) (current_file_iv w) of
           None \<Rightarrow> Raised IndexError (h, w)
         | Some path \<Rightarrow>
            (let h1 = call (loadVolume path) h in
             case loadVolume_result h path of
               None \<Rightarrow> Raised RuntimeError (h1, w)
             | Some vol \<Rightarrow>
                (let w1 = w\<lparr>currentVolumeNode_iv := Some vol\<rparr>;
                     h2 = call (CreateDefaultVolumeRenderingNodes vol) h1;
                     h3 = call (VolumePropertyNode_Copy_preset ''CT-AAA'') h2;
                     h4 = call (displayNode_SetVisibility 1) h3;
                     h5 = call threeDView_resetFocalPoint h4
                 in case numpy_setitem_mask (voxels vol)
                           (map (\<lambda>v. v < thresholdValue) (voxels vol)) 0 of
                      None \<Rightarrow> Raised IndexError (h5, w1)
                    | Some voxels' \<Rightarrow>
                       (let vol' = vol\<lparr>voxels := voxels'\<rparr>;
                            w2 = w1\<lparr>currentVolumeNode_iv := Some vol'\<rparr>;
                            h6 = call (arrayFromVolumeModified vol') h5
                        in case viewNodes h6 of
                             [] \<Rightarrow> Raised IndexError (h6, w2)
                           | ThreeViewNode # _ \<Rightarrow>
                               Returned (call (layoutLogic_MaximizeView ThreeViewNode) h6, w2))))))"

text \<open>
  \<open>onCreateVideo\<close>. The screen capture writes its frames into the output directory; which
  files it writes is the host's answer \<open>capture_result\<close>. A video that the encoder manages
  to write is a new file; when it fails, \<open>write_videofile\<close> raises.
\<close>

definition create_file :: "string \<Rightarrow> string list \<Rightarrow> string list" where
  "create_file p fs = (if p \<in> set fs then fs else fs @ [p])"





definition after_capture :: "host \<Rightarrow> ImplantVideoWidget \<Rightarrow> host" where
  "after_capture h w =
     (let h1 = call (capture3dViewRotation ''vtkMRMLViewNode1'' (- 180) 180 360 0
                       (saveDirectory_iv w) ''image_%05d.png'') h
      in h1\<lparr>files := files h1
                @ capture_result h1 (saveDirectory_iv w) ''image_%05d.png'' 360\<rparr>)"



section \<open>EasySegmentationWidget\<close>

record EasySegmentationWidget =
  saveDirectory :: string
  imageDirectory :: string
  segDirectory :: string
  current_file :: int
  total_files :: int
  fileset :: "(string \<times> string) list"
  needAddProperty :: bool
  changeProperty :: bool
  slicer_majorVersion :: int
  slicer_minorVersion :: int
  currentVolumeNode :: "volumeNode option"
  currentSegNode :: "segmentationNode option"
  NewSegmentId :: string
  displayNode_visibility :: "int option"
  preset_nodes :: "string list"
  currentPresetNode :: "string option"
  ThresholdCheck_checked :: bool
  ThresholdCheck_disabled :: bool
  minBox_text :: string
  minBox_disabled :: bool
  maxBox_text :: string
  maxBox_disabled :: bool
  ApplyButton_disabled :: bool
  ImageCheck_checked :: bool
  SegCheck_checked :: bool
  suffixBox_text :: string
  suffixButton_checked :: bool
  RenderCheck_checked :: bool
  RenderButton_checked :: bool
  RenderButton_enabled :: bool
  render_enabled :: bool
  editorCollapsibleButton_collapsed :: bool
  renderCollapsibleButton_collapsed :: bool
  FileComboBox_items :: "string list"
  FileComboBox_currentIndex :: int

definition file_types :: "string list" where
  "file_types = [''*.nrrd'', ''*.nii'', ''*.nii.gz'']"

text \<open>
  \<open>find_basename_wo_extension\<close>: the loop over \<open>file_types\<close> returns at the first type
  whose text after the star occurs in the basename, with the basename cut there.
\<close>

fun find_basename_loop :: "string list \<Rightarrow> string \<Rightarrow> string" where
  "find_basename_loop [] file_basename = file_basename"
| "find_basename_loop (types # rest) file_basename =
     (if py_find file_basename (drop 1 types) \<noteq> - 1
      then py_slice_to file_basename (py_find file_basename (drop 1 types))
      else find_basename_loop rest file_basename)"

definition find_basename_wo_extension :: "string \<Rightarrow> string" where
  "find_basename_wo_extension filepath =
     find_basename_loop file_types (os_path_basename filepath)"

text \<open>
  \<open>re.sub(r"[_-]+", '_', name)\<close>: every maximal run of underscores and hyphens becomes one
  underscore. The flag says whether the character before was part of a run.
\<close>

fun re_sub_run :: "bool \<Rightarrow> string \<Rightarrow> string" where
  "re_sub_run in_run [] = []"
| "re_sub_run in_run (c # cs) =
     (if c = CHR ''_'' \<or> c = CHR ''-''
      then (if in_run then re_sub_run True cs else CHR ''_'' # re_sub_run True cs)
      else c # re_sub_run False cs)"

definition re_sub_hyphens :: "string \<Rightarrow> string" where
  "re_sub_hyphens name = re_sub_run False name"

text \<open>\<open>onRun\<close>: the loop over \<open>file_types\<close> that collects the two file lists.\<close>

fun collect_files ::
  "string list \<Rightarrow> string list \<Rightarrow> string \<Rightarrow> string \<Rightarrow> string list \<times> string list
     \<Rightarrow> string list \<times> string list" where
  "collect_files fs [] imageDir segDir (image_files, seg_files) = (image_files, seg_files)"
| "collect_files fs (t # ts) imageDir segDir (image_files, seg_files) =
     collect_files fs ts imageDir segDir
       (image_files @ sort (glob_glob fs (os_path_join imageDir t)),
        seg_files @ sort (glob_glob fs (os_path_join segDir t)))"

text \<open>
  The inner loop over the segmentation files appends the first match and breaks; it
  returns the file set and \<open>Is_Seg_Found\<close>.
\<close>

fun seg_loop ::
  "string \<Rightarrow> string \<Rightarrow> string list \<Rightarrow> (string \<times> string) list
     \<Rightarrow> (string \<times> string) list \<times> bool" where
  "seg_loop image_file image_name [] fset = (fset, False)"
| "seg_loop image_file image_name (seg_file # rest) fset =
     (let seg_name = re_sub_hyphens (find_basename_wo_extension seg_file)
      in if py_in image_name seg_name \<or> py_in seg_name image_name
         then (fset @ [(image_file, seg_file)], True)
         else seg_loop image_file image_name rest fset)"

fun image_loop ::
  "string list \<Rightarrow> string list \<Rightarrow> (string \<times> string) list \<times> int
     \<Rightarrow> (string \<times> string) list \<times> int" where
  "image_loop [] seg_files (fset, num_onlyImage) = (fset, num_onlyImage)"
| "image_loop (image_file # rest) seg_files (fset, num_onlyImage) =
     (let image_name = re_sub_hyphens (find_basename_wo_extension image_file);
          (fset1, Is_Seg_Found) = seg_loop image_file image_name seg_files fset
      in if Is_Seg_Found = False
         then image_loop rest seg_files (fset1 @ [(image_file, '''')], num_onlyImage + 1)
         else image_loop rest seg_files (fset1, num_onlyImage))"

fun InsertFileCombo_loop ::
  "nat list \<Rightarrow> EasySegmentationWidget \<Rightarrow> EasySegmentationWidget outcome" where
  "InsertFileCombo_loop [] w = Returned w"
| "InsertFileCombo_loop (index # rest) w =
     (case py_index (fileset w) (int index) of
        None \<Rightarrow> Raised IndexError w
      | Some pair \<Rightarrow>
          (let image_name = find_basename_wo_extension (fst pair)
           in InsertFileCombo_loop rest
                (w\<lparr>FileComboBox_items := FileComboBox_items w @ [image_name]\<rparr>)))"

definition InsertFileCombo :: "EasySegmentationWidget \<Rightarrow> EasySegmentationWidget outcome" where
  "InsertFileCombo w = InsertFileCombo_loop [0..<nat (total_files w)] w"

definition onRun ::
  "host \<Rightarrow> EasySegmentationWidget \<Rightarrow> (host \<times> EasySegmentationWidget) outcome" where
  "onRun h w =
     (let (image_files, seg_files) =
            collect_files (files h) file_types (imageDirectory w) (segDirectory w) ([], []);
          (fset, num_onlyImage) = image_loop image_files seg_files ([], 0);
          w1 = w\<lparr>fileset := fset\<rparr>;
          w2 = w1\<lparr>total_files := int (length (fileset w1))\<rparr>;
          w3 = w2\<lparr>current_file := 0\<rparr>;
          w4 = w3\<lparr>editorCollapsibleButton_collapsed := False\<rparr>;
          h1 = call (py_print [PStr ''the number of total file set : '',
                               PInt (total_files w4)]) h;
          h2 = call (py_print [PStr ''the number of only image file set : '',
                               PInt num_onlyImage]) h1
      in case InsertFileCombo w4 of
           Returned w5 \<Rightarrow> Returned (h2, w5)
         | Raised e w5 \<Rightarrow> Raised e (h2, w5))"

definition RemoveCurrentScene :: "host \<Rightarrow> host" where
  "RemoveCurrentScene h = call (mrmlScene_Clear 0) h"

definition onPre ::
  "host \<Rightarrow> EasySegmentationWidget \<Rightarrow> (host \<times> EasySegmentationWidget) outcome" where
  "onPre h w =
     (if current_file w = 0
      then Returned (call (warningDisplay ''This is first file'') h, w)
      else
        (let h1 = RemoveCurrentScene h;
             w1 = w\<lparr>current_file := current_file w - 1\<rparr>
         in Returned (h1, w1\<lparr>FileComboBox_currentIndex := current_file w1\<rparr>)))"

definition onNext ::
  "host \<Rightarrow> EasySegmentationWidget \<Rightarrow> (host \<times> EasySegmentationWidget) outcome" where
  "onNext h w =
     (if current_file w + 1 = total_files w
      then Returned (call (warningDisplay ''This is last file'') h, w)
      else
        (let h1 = RemoveCurrentScene h;
             w1 = w\<lparr>current_file := current_file w + 1\<rparr>
         in Returned (h1, w1\<lparr>FileComboBox_currentIndex := current_file w1\<rparr>)))"

text \<open>
  Segments of a segmentation node. \<open>GetSegmentIdBySegmentName\<close> gives the id of the first
  segment with the name, or the empty string. \<open>AddEmptySegment\<close> is called with an id and
  no name: the host makes the id unique among the ids in use and names the segment by it.
  \<open>updateSegmentBinaryLabelmapFromArray\<close> replaces the labelmap of the segment with the
  given id.
\<close>

definition GetSegmentIdBySegmentName :: "segmentationNode \<Rightarrow> string \<Rightarrow> string" where
  "GetSegmentIdBySegmentName node name =
     (case find (\<lambda>s. segment_name s = name) (segments node) of
        Some s \<Rightarrow> segment_id s
      | None \<Rightarrow> '''')"

definition AddEmptySegment ::
  "host \<Rightarrow> segmentationNode \<Rightarrow> string \<Rightarrow> string \<times> segmentationNode" where
  "AddEmptySegment h node segmentId =
     (let new_id = GenerateUniqueSegmentID h (map segment_id (segments node)) segmentId
      in (new_id,
          node\<lparr>segments := segments node
                  @ [\<lparr>segment_id = new_id, segment_name = new_id, labelmap = []\<rparr>]\<rparr>))"

definition updateSegmentBinaryLabelmapFromArray ::
  "real list \<Rightarrow> segmentationNode \<Rightarrow> string \<Rightarrow> segmentationNode" where
  "updateSegmentBinaryLabelmapFromArray segmentArray node segmentId =
     node\<lparr>segments :=
            map (\<lambda>s. if segment_id s = segmentId then s\<lparr>labelmap := segmentArray\<rparr> else s)
              (segments node)\<rparr>"

definition segment_labelmap_of :: "segment list \<Rightarrow> string \<Rightarrow> real list option" where
  "segment_labelmap_of segs segmentId =
     map_option labelmap (find (\<lambda>s. segment_id s = segmentId) segs)"


text \<open>\<open>array.max()\<close> of numpy raises on an empty array.\<close>

definition numpy_max :: "real list \<Rightarrow> real option" where
  "numpy_max arr = (case arr of [] \<Rightarrow> None | x # rest \<Rightarrow> Some (fold max rest x))"

definition onThresholdCheck :: "EasySegmentationWidget \<Rightarrow> EasySegmentationWidget" where
  "onThresholdCheck w =
     (if ThresholdCheck_checked w
      then w\<lparr>minBox_disabled := False, maxBox_disabled := False, ApplyButton_disabled := False\<rparr>
      else w\<lparr>minBox_disabled := True, maxBox_disabled := True, ApplyButton_disabled := True\<rparr>)"

text \<open>
  The threshold block, which \<open>onApply\<close> and \<open>LoadFiles\<close> both contain. Its first half
  finds or adds the segment and sets \<open>NewSegmentId\<close>; its second half takes the segment as
  an array in the geometry of the volume (the host's answer), clears it, sets the voxels
  in range to 1 and writes the array back. \<open>LoadFiles\<close> runs the two halves in a row;
  \<open>onApply\<close> reads \<open>self.currentVolumeNode\<close> between them.
\<close>

definition select_segment ::
  "host \<Rightarrow> EasySegmentationWidget \<Rightarrow> segmentationNode
     \<Rightarrow> segmentationNode \<times> EasySegmentationWidget" where
  "select_segment h w node =
     (let segmentId = GetSegmentIdBySegmentName node ''Segment_1'';
          (new_id, node1) = (if segmentId = ''''
                             then AddEmptySegment h node ''Segment_1''
                             else (segmentId, node))
      in (node1, w\<lparr>currentSegNode := Some node1, NewSegmentId := new_id\<rparr>))"

definition fill_segment ::
  "host \<Rightarrow> EasySegmentationWidget \<Rightarrow> segmentationNode \<Rightarrow> string \<Rightarrow> string \<Rightarrow> volumeNode
     \<Rightarrow> EasySegmentationWidget outcome" where
  "fill_segment h w node minValue maxValue vol =
     (let segmentArray = segmentArray_result h node (NewSegmentId w) vol;
          cleared = map (\<lambda>x. 0) segmentArray;
          volumeArray = voxels vol
      in case py_float h minValue of
           None \<Rightarrow> Raised ValueError w
         | Some lo \<Rightarrow>
            (case py_float h maxValue of
               None \<Rightarrow> Raised ValueError w
             | Some hi \<Rightarrow>
                (case numpy_setitem_mask cleared
                        (map (\<lambda>v. lo \<le> v \<and> v \<le> hi) volumeArray) 1 of
                   None \<Rightarrow> Raised IndexError w
                 | Some segmentArray1 \<Rightarrow>
                     Returned (w\<lparr>currentSegNode := Some
                       (updateSegmentBinaryLabelmapFromArray segmentArray1 node
                          (NewSegmentId w))\<rparr>))))"

definition threshold_block ::
  "host \<Rightarrow> EasySegmentationWidget \<Rightarrow> segmentationNode \<Rightarrow> string \<Rightarrow> string \<Rightarrow> volumeNode
     \<Rightarrow> EasySegmentationWidget outcome" where
  "threshold_block h w node minValue maxValue vol =
     (let (node1, w1) = select_segment h w node
      in fill_segment h w1 node1 minValue maxValue vol)"


text \<open>
  \<open>onRendering\<close>, and \<open>RenderButton.click()\<close>, which toggles an enabled checkable button
  and calls \<open>onRendering\<close>, and does nothing on a disabled one.
\<close>

definition onRendering :: "EasySegmentationWidget \<Rightarrow> EasySegmentationWidget" where
  "onRendering w =
     (if RenderButton_checked w
      then (case displayNode_visibility w of
              None \<Rightarrow> w | Some x \<Rightarrow> w\<lparr>displayNode_visibility := Some 1\<rparr>)
      else (case displayNode_visibility w of
              None \<Rightarrow> w | Some x \<Rightarrow> w\<lparr>displayNode_visibility := Some 0\<rparr>))"

definition RenderButton_click :: "EasySegmentationWidget \<Rightarrow> EasySegmentationWidget" where
  "RenderButton_click w =
     (if RenderButton_enabled w
      then onRendering (w\<lparr>RenderButton_checked := \<not> RenderButton_checked w\<rparr>)
      else w)"

text \<open>
  \<open>LoadFiles\<close>, in two parts: the volume and segmentation nodes of the current pair, then
  the volume rendering.
\<close>

definition LoadFiles_nodes ::
  "host \<Rightarrow> EasySegmentationWidget \<Rightarrow> string \<times> string
     \<Rightarrow> (host \<times> EasySegmentationWidget) outcome" where
  "LoadFiles_nodes h w pair =
     (let image_name = find_basename_wo_extension (fst pair);
          h1 = call (loadVolume (fst pair)) h
      in case loadVolume_result h (fst pair) of
           None \<Rightarrow> Raised RuntimeError (h1, w)
         | Some loaded \<Rightarrow>
            (let vol = loaded\<lparr>volume_name := image_name\<rparr>;
                 w1 = w\<lparr>currentVolumeNode := Some vol\<rparr>
             in if snd pair \<noteq> ''''
                then
                  (let h2 = call (loadSegmentation (snd pair)) h1
                   in case loadSegmentation_result h (snd pair) of
                        None \<Rightarrow> Raised RuntimeError (h2, w1)
                      | Some seg \<Rightarrow>
                          Returned (call (editor_setSegmentationNode seg) h2,
                            w1\<lparr>currentSegNode := Some seg,
                               ThresholdCheck_disabled := True,
                               minBox_disabled := True,
                               maxBox_disabled := True,
                               ApplyButton_disabled := True\<rparr>))
                else
                  (let w2 = onThresholdCheck (w1\<lparr>ThresholdCheck_disabled := False\<rparr>);
                       h2 = call (AddNewNodeByClass ''vtkMRMLSegmentationNode'') h1;
                       h3 = call CreateDefaultDisplayNodes h2;
                       node = \<lparr>segmentation_name = image_name, segments = [],
                               referenceGeometry = Some (geometry vol)\<rparr>;
                       w3 = w2\<lparr>currentSegNode := Some node\<rparr>;
                       h4 = call (editor_setSegmentationNode node) h3;
                       h5 = call (editor_setSourceVolumeNode vol) h4;
                       volumeArray = voxels vol
                   in case numpy_max volumeArray of
                        None \<Rightarrow> Raised ValueError (h5, w3)
                      | Some maxVolume \<Rightarrow>
                         (let w4 = w3\<lparr>maxBox_text := py_format h maxVolume\<rparr>
                          in if ThresholdCheck_checked w4
                             then
                               (let minValue = minBox_text w4;
                                    maxValue = maxBox_text w4
                                in case threshold_block h w4 node minValue maxValue vol of
                                     Returned w6 \<Rightarrow> Returned (h5, w6)
                                   | Raised e w6 \<Rightarrow> Raised e (h5, w6))
                             else Returned (h5, w4)))))"

fun add_presets ::
  "string list \<Rightarrow> host \<times> EasySegmentationWidget \<Rightarrow> host \<times> EasySegmentationWidget" where
  "add_presets [] (h, w) = (h, w)"
| "add_presets (item # rest) (h, w) =
     add_presets rest (call (mrmlScene_AddNode_preset item) h,
                       w\<lparr>preset_nodes := preset_nodes w @ [item]\<rparr>)"

definition LoadFiles_rendering ::
  "host \<Rightarrow> EasySegmentationWidget \<Rightarrow> volumeNode
     \<Rightarrow> (host \<times> EasySegmentationWidget) outcome" where
  "LoadFiles_rendering h w vol =
     (let h1 = (if 5 \<le> slicer_majorVersion w \<and> 2 \<le> slicer_minorVersion w
                then call (editor_setSourceVolumeNode vol) h
                else call (editor_setMasterVolumeNode vol) h);
          w1 = w\<lparr>renderCollapsibleButton_collapsed := False\<rparr>;
          scriptedModulesPath = os_path_dirname (modulePath h ''EasySegmentation'');
          presetfile = os_path_join (os_path_join scriptedModulesPath ''Resources'')
                         ''presets.xml'';
          h2 = call (minidom_parse presetfile) h1;
          items = preset_names h2;
          w2 = w1\<lparr>render_enabled := True, RenderButton_enabled := True\<rparr>;
          h3 = call (CreateDefaultVolumeRenderingNodes vol) h2;
          w3 = w2\<lparr>displayNode_visibility := Some (new_displayNode_visibility h3)\<rparr>;
          h4 = call render_setMRMLVolumePropertyNode h3;
          (h5, w4) = add_presets items (h4, w3\<lparr>preset_nodes := []\<rparr>);
          w5 = w4\<lparr>needAddProperty := False\<rparr>
      in case preset_nodes w5 of
           [] \<Rightarrow> Raised IndexError (h5, w5)
         | first_preset # others \<Rightarrow>
            (let w6 = w5\<lparr>currentPresetNode := Some first_preset\<rparr>;
                 h6 = call (render_setCurrentNode first_preset) h5;
                 h7 = call threeDView_resetFocalPoint h6
             in if RenderCheck_checked w6
                then Returned (h7, w6\<lparr>displayNode_visibility := Some 1,
                                      RenderButton_checked := True\<rparr>)
                else Returned (h7, w6\<lparr>displayNode_visibility := Some 0,
                                      RenderButton_checked := False\<rparr>)))"

definition LoadFiles ::
  "host \<Rightarrow> EasySegmentationWidget \<Rightarrow> (host \<times> EasySegmentationWidget) outcome" where
  "LoadFiles h w =
     (let w1 = w\<lparr>needAddProperty := True, changeProperty := False\<rparr>;
          w2 = (if RenderButton_checked w1 then RenderButton_click w1 else w1)
      in if imageDirectory w2 = ''''
         then Returned (call (warningDisplay ''Please choose image folder'') h, w2)
         else if total_files w2 = 0
         then Returned (call (warningDisplay
                          (no_file_warning (imageDirectory w2) (segDirectory w2))) h, w2)
         else
           (case py_index (fileset w2) (current_file w2) of
              None \<Rightarrow> Raised IndexError (h, w2)
            | Some pair \<Rightarrow>
               (case LoadFiles_nodes h w2 pair of
                  Raised e s \<Rightarrow> Raised e s
                | Returned (h1, w3) \<Rightarrow>
                   (case currentVolumeNode w3 of
                      None \<Rightarrow> Raised AttributeError (h1, w3)
                    | Some vol \<Rightarrow> LoadFiles_rendering h1 w3 vol))))"

text \<open>
  \<open>onSave\<close>, in two parts: the volume and the segmentation. A directory that is made is
  recorded as existing; an exported node is a new file.
\<close>

definition os_path_exists :: "host \<Rightarrow> string \<Rightarrow> bool" where
  "os_path_exists h p = (p \<in> set (dirs h) \<or> p \<in> set (files h))"

definition os_makedirs :: "string \<Rightarrow> host \<Rightarrow> host" where
  "os_makedirs p h = h\<lparr>dirs := dirs h @ [p]\<rparr>"

definition export_node ::
  "host \<Rightarrow> EasySegmentationWidget \<Rightarrow> exported \<Rightarrow> string \<Rightarrow> host" where
  "export_node h w node path =
     (let h1 = (if 5 \<le> slicer_majorVersion w \<and> 2 \<le> slicer_minorVersion w
                then call (exportNode node path) h
                else call (saveNode node path) h)
      in h1\<lparr>files := create_file path (files h1)\<rparr>)"

definition onSave_image ::
  "host \<Rightarrow> EasySegmentationWidget \<Rightarrow> (host \<times> EasySegmentationWidget) outcome" where
  "onSave_image h w =
     (let volume_directory = os_path_join (saveDirectory w) ''image'';
          h1 = (if \<not> os_path_exists h volume_directory
                then os_makedirs volume_directory h else h)
      in case py_index (fileset w) (current_file w) of
           None \<Rightarrow> Raised IndexError (h1, w)
         | Some pair \<Rightarrow>
            (let volumeFileName = find_basename_wo_extension (fst pair);
                 volume_path = os_path_join volume_directory (volumeFileName @ ''.nii.gz'')
             in case currentVolumeNode w of
                  None \<Rightarrow> Raised AttributeError (h1, w)
                | Some vol \<Rightarrow> Returned (export_node h1 w (ExportedVolume vol) volume_path, w)))"

definition onSave_segmentation ::
  "host \<Rightarrow> EasySegmentationWidget \<Rightarrow> (host \<times> EasySegmentationWidget) outcome" where
  "onSave_segmentation h w =
     (let seg_directory = os_path_join (saveDirectory w) ''segmentation'';
          h1 = (if \<not> os_path_exists h seg_directory
                then os_makedirs seg_directory h else h);
          h2 = call (AddNewNodeByClass ''vtkMRMLLabelMapVolumeNode'') h1
      in case currentSegNode w of
           None \<Rightarrow> Raised AttributeError (h2, w)
         | Some node \<Rightarrow>
            (let h3 = call (ExportAllSegmentsToLabelmapNode node) h2
             in case py_index (fileset w) (current_file w) of
                  None \<Rightarrow> Raised IndexError (h3, w)
                | Some pair \<Rightarrow>
                   (let segFile = (if snd pair \<noteq> '''' then os_path_basename (snd pair)
                                   else segmentation_name node);
                        segFileName = find_basename_wo_extension segFile;
                        seg_path =
                          (if suffixButton_checked w
                           then os_path_join seg_directory
                                  (segFileName @ suffixBox_text w @ ''.nii.gz'')
                           else os_path_join seg_directory (segFileName @ ''.nii.gz''));
                        h4 = export_node h3 w (ExportedLabelmap node) seg_path;
                        h5 = call (mrmlScene_RemoveNode LabelmapColorNode) h4
                    in Returned (call (mrmlScene_RemoveNode LabelmapVolumeNode) h5, w))))"

definition onSave ::
  "host \<Rightarrow> EasySegmentationWidget \<Rightarrow> (host \<times> EasySegmentationWidget) outcome" where
  "onSave h w =
     (if saveDirectory w = ''''
      then Returned (call (warningDisplay ''You must set destination folder'') h, w)
      else if total_files w = 0
      then Returned (call (warningDisplay ''You must load file first'') h, w)
      else
        (case (if ImageCheck_checked w then onSave_image h w else Returned (h, w)) of
           Raised e s \<Rightarrow> Raised e s
         | Returned (h1, w1) \<Rightarrow>
             (if SegCheck_checked w1 then onSave_segmentation h1 w1
              else Returned (h1, w1))))"

text \<open>
  What \<open>onRun\<close> computes, stated without the loops: the files of a directory for the
  three patterns in turn, each group sorted; the name under which a file is compared; and
  the pair an image file gets, with the first segmentation file whose name matches.
\<close>

definition unified_name :: "string \<Rightarrow> string" where
  "unified_name p = re_sub_hyphens (find_basename_wo_extension p)"

definition names_match :: "string \<Rightarrow> string \<Rightarrow> bool" where
  "names_match image_file seg_file =
     (py_in (unified_name image_file) (unified_name seg_file)
      \<or> py_in (unified_name seg_file) (unified_name image_file))"

definition paired_with :: "string list \<Rightarrow> string \<Rightarrow> string \<times> string" where
  "paired_with seg_files image_file =
     (case find (names_match image_file) seg_files of
        Some seg_file \<Rightarrow> (image_file, seg_file)
      | None \<Rightarrow> (image_file, ''''))"

definition files_of_types :: "string list \<Rightarrow> string \<Rightarrow> string list" where
  "files_of_types fs dir =
     concat (map (\<lambda>t. sort (glob_glob fs (os_path_join dir t)))
               [''*.nrrd'', ''*.nii'', ''*.nii.gz''])"

section \<open>The claims in their own words\<close>


text \<open>
  C1, C4 and C5 speak of the basename without its extension: the basename with a final
  \<open>.nii.gz\<close>, \<open>.nii\<close> or \<open>.nrrd\<close> taken off. C1 pairs on these names.
\<close>

definition basename_without_extension_spec :: "string \<Rightarrow> string" where
  "basename_without_extension_spec p =
     (let b = os_path_basename p
      in if suffix ''.nii.gz'' b then take (length b - length ''.nii.gz'') b
         else if suffix ''.nii'' b then take (length b - length ''.nii'') b
         else if suffix ''.nrrd'' b then take (length b - length ''.nrrd'') b
         else b)"

definition names_match_spec :: "string \<Rightarrow> string \<Rightarrow> bool" where
  "names_match_spec image_file seg_file =
     (let image_name = re_sub_hyphens (basename_without_extension_spec image_file);
          seg_name = re_sub_hyphens (basename_without_extension_spec seg_file)
      in py_in image_name seg_name \<or> py_in seg_name image_name)"

definition paired_with_spec :: "string list \<Rightarrow> string \<Rightarrow> string \<times> string" where
  "paired_with_spec seg_files image_file =
     (case find (names_match_spec image_file) seg_files of
        Some seg_file \<Rightarrow> (image_file, seg_file)
      | None \<Rightarrow> (image_file, ''''))"

section \<open>Example states\<close>

definition demo_host :: host where
  "demo_host = \<lparr>files = [''/data/b.nii.gz'', ''/data/a.nii.gz'', ''/data/c.nrrd'',
                          ''/data/.hidden.nii.gz'', ''/other/z.nii.gz''],
               dirs = [''/data'', ''/out'', ''/imgs'', ''/segs''],
               calls = [],
               loadVolume_result = (\<lambda>p. if p = ''/data/a.nii.gz'' \<or> p = ''/imgs/a.nii.gz.nii.gz''
                  then Some \<lparr>volume_name = ''a'', voxels = [1999, 2000, -5, 3071],
                             geometry = [2, 2, 1]\<rparr>
                  else None),
               loadSegmentation_result = (\<lambda>p. None),
               py_float = (\<lambda>text. if text = ''0.1'' then Some (1 / 10)
                                   else if text = ''100000'' then Some 100000
                                   else if text = ''3071'' then Some 3071 else None),
               py_format = (\<lambda>x. if x = 3071 then ''3071'' else ''0''),
               segmentArray_result = (\<lambda>node segmentId vol.
                  take (length (voxels vol))
                    ((case segment_labelmap_of (segments node) segmentId of
                        Some arr \<Rightarrow> arr | None \<Rightarrow> [])
                     @ replicate (length (voxels vol)) 0)),
               GenerateUniqueSegmentID = (\<lambda>ids segmentId.
                  if segmentId \<in> set ids then segmentId @ ''_1'' else segmentId),
               new_displayNode_visibility = 1,
               preset_names = [''CT-AAA'', ''CT-Bone''],
               modulePath = (\<lambda>name. ''/modules/'' @ name @ ''.py''),
               viewNodes = [''vtkMRMLViewNode1''],
               capture_result = (\<lambda>outputDir pattern n.
                  map (\<lambda>i. os_path_join outputDir (''image_0000'' @ i @ ''.png''))
                    (take n [''0'', ''1'', ''2''])),
               write_videofile_ok = (\<lambda>images path. images \<noteq> [])\<rparr>"

definition demo_iv :: ImplantVideoWidget where
  "demo_iv = \<lparr>saveDirectory_iv = ''/out'', imageDirectory_iv = ''/data'',
             segDirectory_iv = [],
             currentVolumeNode_iv = None, current_file_iv = 0, total_files_iv = 2,
             fileset_iv = [''/data/a.nii.gz'', ''/data/b.nii.gz''],
             FileComboBox_items_iv = [''a'', ''b''], FileComboBox_currentIndex_iv = 0\<rparr>"



definition demo_es :: EasySegmentationWidget where
  "demo_es = \<lparr>saveDirectory = ''/out'', imageDirectory = ''/imgs'', segDirectory = ''/segs'',
      current_file = 0, total_files = 0, fileset = [],
      needAddProperty = True, changeProperty = False,
      slicer_majorVersion = 5, slicer_minorVersion = 6,
      currentVolumeNode = None, currentSegNode = None, NewSegmentId = [],
      displayNode_visibility = None, preset_nodes = [], currentPresetNode = None,
      ThresholdCheck_checked = False, ThresholdCheck_disabled = False,
      minBox_text = ''0.1'', minBox_disabled = True,
      maxBox_text = ''100000'', maxBox_disabled = True, ApplyButton_disabled = True,
      ImageCheck_checked = False, SegCheck_checked = True,
      suffixBox_text = ''_seg'', suffixButton_checked = True,
      RenderCheck_checked = False, RenderButton_checked = False,
      RenderButton_enabled = False, render_enabled = False,
      editorCollapsibleButton_collapsed = True, renderCollapsibleButton_collapsed = True,
      FileComboBox_items = [], FileComboBox_currentIndex = - 1\<rparr>"

definition demo_host3 :: host where
  "demo_host3 = demo_host\<lparr>files := [''/imgs/case_1.nii.gz'', ''/imgs/case-2.nrrd'',
      ''/imgs/solo.nii'', ''/segs/case-1_seg.nii.gz'', ''/segs/case__2-seg.nrrd'']\<rparr>"

definition demo_host4 :: host where
  "demo_host4 = demo_host\<lparr>files := [''/imgs/t1.nii.brain.nii.gz'', ''/segs/brain.nrrd'']\<rparr>"

definition demo_volume :: volumeNode where
  "demo_volume = \<lparr>volume_name = ''a'', voxels = [1999, 2000, -5, 3071], geometry = [2, 2, 1]\<rparr>"

definition demo_segmentation :: segmentationNode where
  "demo_segmentation = \<lparr>segmentation_name = ''a'',
      segments = [\<lparr>segment_id = ''Segment_1'', segment_name = ''Segment_1'',
                   labelmap = [1, 1, 1, 1]\<rparr>],
      referenceGeometry = Some [2, 2, 1]\<rparr>"

definition demo_es_loaded :: EasySegmentationWidget where
  "demo_es_loaded = demo_es\<lparr>currentVolumeNode := Some demo_volume,
      currentSegNode := Some demo_segmentation, maxBox_text := ''3071'',
      fileset := [(''/imgs/case1.nii.gz'', ''/segs/case1.nii.seg.nii.gz'')],
      total_files := 1\<rparr>"

section \<open>Outcomes and loops\<close>

lemma final_state_case:
  "final_state (case x of Returned w \<Rightarrow> Returned (h, w) | Raised e w \<Rightarrow> Raised e (h, w))
     = (h, final_state x)"
  by (cases x) auto

lemma has_returned_case:
  "has_returned (case x of Returned w \<Rightarrow> Returned (h, w) | Raised e w \<Rightarrow> Raised e (h, w))
     = has_returned x"
  by (cases x) auto

lemma numpy_setitem_mask_map:
  "numpy_setitem_mask arr (map P arr) v = Some (map (\<lambda>a. if P a then v else a) arr)"
  by (simp add: numpy_setitem_mask_def zip_map2 zip_same_conv_map)

section \<open>ImplantVideoWidget: loading the file list\<close>






section \<open>ImplantVideoWidget: the threshold of LoadFiles\<close>

text \<open>
  C8. When \<open>ImplantVideoWidget.LoadFiles\<close> loads the current file (an image folder is
  chosen, there are files, \<open>current_file\<close> indexes \<open>fileset\<close> and the host loads the
  volume), the voxel array of the loaded volume is changed in place: every voxel below
  2000 becomes 0 and every voxel of at least 2000 keeps its value.
\<close>

theorem LoadFiles_iv_threshold:
  assumes "imageDirectory_iv w \<noteq> []" and "total_files_iv w \<noteq> 0"
    and "py_index (fileset_iv w) (current_file_iv w) = Some path"
    and "loadVolume_result h path = Some vol"
  shows "\<exists>vol'. currentVolumeNode_iv (snd (final_state (LoadFiles_iv h w))) = Some vol'
     \<and> voxels vol' = map (\<lambda>v. if v < 2000 then 0 else v) (voxels vol)
     \<and> length (voxels vol') = length (voxels vol)
     \<and> (\<forall>i < length (voxels vol).
          (voxels vol ! i < 2000 \<longrightarrow> voxels vol' ! i = 0)
        \<and> (2000 \<le> voxels vol ! i \<longrightarrow> voxels vol' ! i = voxels vol ! i))"
  using assms
  by (auto simp: LoadFiles_iv_def Let_def numpy_setitem_mask_map thresholdValue_def
      split: list.splits)

theorem LoadFiles_iv_threshold_witness:
  "\<exists>vol'. currentVolumeNode_iv (snd (final_state (LoadFiles_iv demo_host demo_iv))) = Some vol'
     \<and> voxels vol' = [0, 2000, 0, 3071]"
proof -
  have a: "imageDirectory_iv demo_iv \<noteq> []" "total_files_iv demo_iv \<noteq> 0"
    by (simp_all add: demo_iv_def)
  have b: "py_index (fileset_iv demo_iv) (current_file_iv demo_iv) = Some ''/data/a.nii.gz''"
    by (simp add: demo_iv_def py_index_def)
  have c: "loadVolume_result demo_host ''/data/a.nii.gz''
      = Some \<lparr>volume_name = ''a'', voxels = [1999, 2000, -5, 3071], geometry = [2, 2, 1]\<rparr>"
    by (simp add: demo_host_def)
  from LoadFiles_iv_threshold [OF a b c] show ?thesis
    by auto
qed

section \<open>ImplantVideoWidget: creating the video\<close>











lemma not_sublist_butlast: "sub \<noteq> [] \<Longrightarrow> \<not> sublist sub (butlast sub)"
proof (cases sub)
  case Nil
  assume "sub \<noteq> []"
  with Nil show ?thesis by simp
next
  case (Cons x xs)
  show ?thesis
  proof
    assume "sublist sub (butlast sub)"
    then have "length sub \<le> length (butlast sub)" by (rule sublist_length_le)
    also have "length (butlast sub) = length sub - 1" by (rule length_butlast)
    finally have "length sub \<le> length sub - 1" .
    moreover have "length sub \<noteq> 0" using Cons by simp
    ultimately show False by arith
  qed
qed

lemma py_find_from_found:
  "sublist sub s \<Longrightarrow>
   \<exists>pre rest. s = pre @ sub @ rest \<and> py_find_from sub s i = i + int (length pre)
      \<and> (sub \<noteq> [] \<longrightarrow> \<not> sublist sub (pre @ butlast sub))"
proof (induction s arbitrary: i)
  case Nil
  then show ?case by auto
next
  case (Cons c cs)
  show ?case
  proof (cases "prefix sub (c # cs)")
    case True
    then obtain rest where "c # cs = sub @ rest" by (auto simp: prefix_def)
    moreover have "py_find_from sub (c # cs) i = i" using True by simp
    ultimately have "c # cs = [] @ sub @ rest
      \<and> py_find_from sub (c # cs) i = i + int (length ([]::string))
      \<and> (sub \<noteq> [] \<longrightarrow> \<not> sublist sub ([] @ butlast sub))"
      using not_sublist_butlast [of sub] by simp
    then show ?thesis by blast
  next
    case False
    with Cons.prems have "sublist sub cs" by (simp add: sublist_Cons_right)
    from Cons.IH [OF this, of "i + 1"] obtain pre rest where
      p: "cs = pre @ sub @ rest" "py_find_from sub cs (i + 1) = i + 1 + int (length pre)"
         "sub \<noteq> [] \<longrightarrow> \<not> sublist sub (pre @ butlast sub)" by blast
    have "\<not> prefix sub (c # pre @ butlast sub)" if "sub \<noteq> []"
    proof
      assume a: "prefix sub (c # pre @ butlast sub)"
      have "prefix (c # pre @ butlast sub) (c # cs)"
        using p(1) that by (simp add: prefix_def) (metis append_butlast_last_id append_Cons append_assoc)
      with a have "prefix sub (c # cs)" by (rule prefix_order.trans)
      with False show False by simp
    qed
    with p(3) have "sub \<noteq> [] \<longrightarrow> \<not> sublist sub ((c # pre) @ butlast sub)"
      by (auto simp: sublist_Cons_right)
    moreover have "c # cs = (c # pre) @ sub @ rest" using p(1) by simp
    moreover have "py_find_from sub (c # cs) i = i + int (length (c # pre))"
      using False p(2) by simp
    ultimately show ?thesis by blast
  qed
qed

lemma py_find_from_missing: "\<not> sublist sub s \<Longrightarrow> py_find_from sub s i = - 1"
  by (induction s arbitrary: i) (auto simp: sublist_Cons_right)

lemma py_cut_first:
  assumes "py_in sub s"
  shows "\<exists>rest. s = py_slice_to s (py_find s sub) @ sub @ rest
     \<and> (sub \<noteq> [] \<longrightarrow> \<not> py_in sub (py_slice_to s (py_find s sub) @ butlast sub))"
proof -
  from assms py_find_from_found [of sub s 0] obtain pre rest where
    p: "s = pre @ sub @ rest" "py_find s sub = int (length pre)"
       "sub \<noteq> [] \<longrightarrow> \<not> sublist sub (pre @ butlast sub)"
    by (auto simp: py_in_def py_find_def)
  then have "py_slice_to s (py_find s sub) = pre"
    by (simp add: py_slice_to_def)
  with p show ?thesis by (auto simp: py_in_def)
qed

lemma host_fields_kept [simp]:
  "write_videofile_ok (call a h) = write_videofile_ok h"
  "write_videofile_ok (after_capture h w) = write_videofile_ok h"
  "files (call a h) = files h"
  "calls (call a h) = calls h @ [a]"
  "capture_result (call a h) = capture_result h"
  by (simp_all add: call_def after_capture_def Let_def)














section \<open>EasySegmentationWidget: loading and pairing the files\<close>

lemma collect_files_concat:
  "collect_files fs ts imageDir segDir (a, b) =
     (a @ concat (map (\<lambda>t. sort (glob_glob fs (os_path_join imageDir t))) ts),
      b @ concat (map (\<lambda>t. sort (glob_glob fs (os_path_join segDir t))) ts))"
  by (induction ts arbitrary: a b) auto

lemma collect_files_types:
  "collect_files fs file_types imageDir segDir ([], []) =
     (files_of_types fs imageDir, files_of_types fs segDir)"
  by (simp add: collect_files_concat files_of_types_def file_types_def)

lemma seg_loop_find:
  "seg_loop image_file (unified_name image_file) seg_files fset =
     (case find (names_match image_file) seg_files of
        Some seg_file \<Rightarrow> (fset @ [(image_file, seg_file)], True)
      | None \<Rightarrow> (fset, False))"
  by (induction seg_files) (auto simp: names_match_def unified_name_def Let_def)

lemma image_loop_map:
  "fst (image_loop image_files seg_files (fset, n)) =
     fset @ map (paired_with seg_files) image_files"
proof (induction image_files arbitrary: fset n)
  case Nil
  then show ?case by simp
next
  case (Cons image_file rest)
  show ?case
  proof (cases "find (names_match image_file) seg_files")
    case None
    then show ?thesis
      using Cons.IH [of "fset @ [(image_file, '''')]" "n + 1"]
      by (simp add: seg_loop_find [unfolded unified_name_def] paired_with_def)
  next
    case (Some seg_file)
    then show ?thesis
      using Cons.IH [of "fset @ [(image_file, seg_file)]" n]
      by (simp add: seg_loop_find [unfolded unified_name_def] paired_with_def)
  qed
qed

lemma InsertFileCombo_loop_keeps:
  "fileset (final_state (InsertFileCombo_loop is w)) = fileset w
   \<and> total_files (final_state (InsertFileCombo_loop is w)) = total_files w
   \<and> current_file (final_state (InsertFileCombo_loop is w)) = current_file w"
  by (induction "is" arbitrary: w) (auto split: option.splits simp: Let_def)

lemma InsertFileCombo_loop_returns:
  "\<forall>i \<in> set is. i < length (fileset w) \<Longrightarrow> has_returned (InsertFileCombo_loop is w)"
proof (induction "is" arbitrary: w)
  case Nil
  then show ?case by simp
next
  case (Cons i "is")
  then show ?case
    by (auto simp: py_index_def Let_def)
qed

lemma onRun_final:
  fixes h w
  defines "w' \<equiv> snd (final_state (onRun h w))"
  shows "has_returned (onRun h w)"
    and "fileset w' = map (paired_with (files_of_types (files h) (segDirectory w)))
                          (files_of_types (files h) (imageDirectory w))"
    and "total_files w' = int (length (fileset w'))"
    and "current_file w' = 0"
proof -
  obtain fset n where il: "image_loop (files_of_types (files h) (imageDirectory w))
      (files_of_types (files h) (segDirectory w)) ([], 0) = (fset, n)"
    by (cases "image_loop (files_of_types (files h) (imageDirectory w))
      (files_of_types (files h) (segDirectory w)) ([], 0)") auto
  have fs: "fset = map (paired_with (files_of_types (files h) (segDirectory w)))
                          (files_of_types (files h) (imageDirectory w))"
    using image_loop_map [of "files_of_types (files h) (imageDirectory w)"
        "files_of_types (files h) (segDirectory w)" "[]" 0] il by simp
  let ?w4 = "w\<lparr>fileset := fset, total_files := int (length fset), current_file := 0,
               editorCollapsibleButton_collapsed := False\<rparr>"
  have run: "snd (final_state (onRun h w)) = final_state (InsertFileCombo ?w4)"
    "has_returned (onRun h w) = has_returned (InsertFileCombo ?w4)"
    by (simp_all add: onRun_def collect_files_types il Let_def final_state_case
        has_returned_case)
  have ret: "has_returned (InsertFileCombo ?w4)"
    unfolding InsertFileCombo_def by (rule InsertFileCombo_loop_returns) simp
  show "has_returned (onRun h w)"
    using ret by (simp add: run)
  have k: "fileset (final_state (InsertFileCombo ?w4)) = fset"
     "total_files (final_state (InsertFileCombo ?w4)) = int (length fset)"
     "current_file (final_state (InsertFileCombo ?w4)) = 0"
    unfolding InsertFileCombo_def by (simp_all add: InsertFileCombo_loop_keeps)
  show "fileset w' = map (paired_with (files_of_types (files h) (segDirectory w)))
                          (files_of_types (files h) (imageDirectory w))"
    unfolding w'_def using k fs by (simp add: run)
  show "total_files w' = int (length (fileset w'))"
    unfolding w'_def using k by (simp add: run)
  show "current_file w' = 0"
    unfolding w'_def using k by (simp add: run)
qed

lemma py_find_found_iff: "py_find s sub \<noteq> - 1 \<longleftrightarrow> py_in sub s"
proof (cases "sublist sub s")
  case True
  from py_find_from_found [OF this, of 0] show ?thesis
    using True by (auto simp: py_find_def py_in_def)
next
  case False
  then show ?thesis
    by (simp add: py_find_def py_in_def py_find_from_missing)
qed

lemma find_basename_wo_extension_eq:
  "find_basename_wo_extension p =
     (let b = os_path_basename p
      in if py_in ''.nrrd'' b then py_slice_to b (py_find b ''.nrrd'')
         else if py_in ''.nii'' b then py_slice_to b (py_find b ''.nii'')
         else b)"
proof -
  have "\<not> py_in ''.nii'' b \<Longrightarrow> \<not> py_in ''.nii.gz'' b" for b
  proof
    assume a: "\<not> py_in ''.nii'' b" "py_in ''.nii.gz'' b"
    from a(2) obtain ps ss where "b = ps @ ''.nii.gz'' @ ss"
      by (auto simp: py_in_def sublist_def)
    then have "b = ps @ ''.nii'' @ (''.gz'' @ ss)" by simp
    then have "sublist ''.nii'' b" unfolding sublist_def by blast
    with a(1) show False by (simp add: py_in_def)
  qed
  then show ?thesis
    by (auto simp: find_basename_wo_extension_def file_types_def py_find_found_iff Let_def)
qed

lemma find_basename_wo_extension_cut:
  fixes p
  defines "b \<equiv> os_path_basename p" and "r \<equiv> find_basename_wo_extension p"
  shows "(py_in ''.nrrd'' b \<longrightarrow>
            (\<exists>rest. b = r @ ''.nrrd'' @ rest) \<and> \<not> py_in ''.nrrd'' (r @ ''.nrr''))
     \<and> (\<not> py_in ''.nrrd'' b \<and> py_in ''.nii'' b \<longrightarrow>
            (\<exists>rest. b = r @ ''.nii'' @ rest) \<and> \<not> py_in ''.nii'' (r @ ''.ni''))
     \<and> (\<not> py_in ''.nrrd'' b \<and> \<not> py_in ''.nii'' b \<longrightarrow> r = b)"
  unfolding b_def r_def
  using py_cut_first [of "''.nrrd''" "os_path_basename p"]
        py_cut_first [of "''.nii''" "os_path_basename p"]
  by (auto simp: find_basename_wo_extension_eq Let_def)

lemma paired_with_first:
  "(\<exists>pre s post. seg_files = pre @ s # post \<and> names_match image_file s
       \<and> (\<forall>t \<in> set pre. \<not> names_match image_file t)
       \<and> paired_with seg_files image_file = (image_file, s))
   \<or> ((\<forall>t \<in> set seg_files. \<not> names_match image_file t)
       \<and> paired_with seg_files image_file = (image_file, ''''))"
proof (cases "find (names_match image_file) seg_files")
  case None
  then have "\<forall>t \<in> set seg_files. \<not> names_match image_file t"
    by (simp add: find_None_iff)
  moreover have "paired_with seg_files image_file = (image_file, [])"
    using None by (simp add: paired_with_def)
  ultimately show ?thesis by blast
next
  case (Some s)
  then obtain i where i: "i < length seg_files" "names_match image_file (seg_files ! i)"
     "s = seg_files ! i" "\<forall>j<i. \<not> names_match image_file (seg_files ! j)"
    by (auto simp: find_Some_iff)
  then have "seg_files = take i seg_files @ s # drop (Suc i) seg_files"
    by (simp add: id_take_nth_drop)
  moreover have "\<forall>t \<in> set (take i seg_files). \<not> names_match image_file t"
    using i by (auto simp: in_set_conv_nth)
  moreover have "paired_with seg_files image_file = (image_file, s)"
    using Some by (simp add: paired_with_def)
  ultimately show ?thesis
    using i(2,3) by blast
qed




text \<open>
  C1, as amended. After \<open>onRun\<close>, \<open>fileset\<close> has exactly one pair for every image file
  found, in order. An image file is paired with the first segmentation file, in the order
  of the segmentation files, such that one unified name occurs in the other, and with the
  empty string when there is none. The unified name of a file is its basename cut before
  the first occurrence of \<open>.nrrd\<close>, or when there is none before the first occurrence of
  \<open>.nii\<close>, or the whole basename when there is neither, with every run of \<open>-\<close> and \<open>_\<close>
  replaced by one \<open>_\<close>.
\<close>

theorem onRun_pairing:
  fixes h w
  defines "w' \<equiv> snd (final_state (onRun h w))"
  defines "image_files \<equiv> files_of_types (files h) (imageDirectory w)"
  defines "seg_files \<equiv> files_of_types (files h) (segDirectory w)"
  shows "fileset w' = map (paired_with seg_files) image_files
     \<and> length (fileset w') = length image_files
     \<and> (\<forall>image_file \<in> set image_files.
          (\<exists>pre seg_file post. seg_files = pre @ seg_file # post
              \<and> names_match image_file seg_file
              \<and> (\<forall>t \<in> set pre. \<not> names_match image_file t)
              \<and> paired_with seg_files image_file = (image_file, seg_file))
        \<or> ((\<forall>t \<in> set seg_files. \<not> names_match image_file t)
              \<and> paired_with seg_files image_file = (image_file, '''')))
     \<and> (\<forall>p. let b = os_path_basename p; r = find_basename_wo_extension p in
           (py_in ''.nrrd'' b \<longrightarrow>
              (\<exists>rest. b = r @ ''.nrrd'' @ rest) \<and> \<not> py_in ''.nrrd'' (r @ ''.nrr''))
         \<and> (\<not> py_in ''.nrrd'' b \<and> py_in ''.nii'' b \<longrightarrow>
              (\<exists>rest. b = r @ ''.nii'' @ rest) \<and> \<not> py_in ''.nii'' (r @ ''.ni''))
         \<and> (\<not> py_in ''.nrrd'' b \<and> \<not> py_in ''.nii'' b \<longrightarrow> r = b))"
proof -
  have a: "fileset w' = map (paired_with seg_files) image_files"
    unfolding w'_def image_files_def seg_files_def by (rule onRun_final(2))
  then have b: "length (fileset w') = length image_files" by simp
  show ?thesis
    unfolding Let_def
    using a b paired_with_first [of seg_files] find_basename_wo_extension_cut by blast
qed

theorem onRun_pairing_witness:
  "fileset (snd (final_state (onRun demo_host3 demo_es)))
     = [(''/imgs/case-2.nrrd'', ''/segs/case__2-seg.nrrd''),
        (''/imgs/solo.nii'', ''''),
        (''/imgs/case_1.nii.gz'', ''/segs/case-1_seg.nii.gz'')]"
proof -
  have e: "map (paired_with (files_of_types (files demo_host3) (segDirectory demo_es)))
            (files_of_types (files demo_host3) (imageDirectory demo_es))
     = [(''/imgs/case-2.nrrd'', ''/segs/case__2-seg.nrrd''),
        (''/imgs/solo.nii'', ''''),
        (''/imgs/case_1.nii.gz'', ''/segs/case-1_seg.nii.gz'')]"
    by code_simp
  from onRun_pairing [of demo_host3 demo_es] show ?thesis
    unfolding e by simp
qed

text \<open>
  C1 as it is written strips the extension. The image \<open>t1.nii.brain.nii.gz\<close> would then
  be compared as \<open>t1.nii.brain\<close> and paired with \<open>brain.nrrd\<close>; \<open>onRun\<close> compares it as
  \<open>t1\<close> and pairs it with the empty string.
\<close>

theorem onRun_pairing_counterexample:
  "fileset (snd (final_state (onRun demo_host4 demo_es)))
     = [(''/imgs/t1.nii.brain.nii.gz'', '''')]
   \<and> map (paired_with_spec [''/segs/brain.nrrd'']) [''/imgs/t1.nii.brain.nii.gz'']
     = [(''/imgs/t1.nii.brain.nii.gz'', ''/segs/brain.nrrd'')]"
  by code_simp

text \<open>
  C9. In both widgets, from a state with \<open>total_files > 0\<close> and
  \<open>0 \<le> current_file < total_files\<close>, \<open>onPre\<close> and \<open>onNext\<close> return, leave \<open>total_files\<close> as
  it is and keep \<open>current_file\<close> in range: at 0 \<open>onPre\<close> shows the warning and leaves
  \<open>current_file\<close>, at \<open>total_files - 1\<close> \<open>onNext\<close> shows the warning and leaves it, and
  otherwise they subtract and add exactly 1.
\<close>

theorem navigation_invariant:
  "(0 < total_files w \<and> 0 \<le> current_file w \<and> current_file w < total_files w \<longrightarrow>
     (let w1 = snd (final_state (onPre h w)); h1 = fst (final_state (onPre h w));
          w2 = snd (final_state (onNext h w)); h2 = fst (final_state (onNext h w))
      in has_returned (onPre h w) \<and> has_returned (onNext h w)
       \<and> total_files w1 = total_files w \<and> total_files w2 = total_files w
       \<and> 0 \<le> current_file w1 \<and> current_file w1 < total_files w1
       \<and> 0 \<le> current_file w2 \<and> current_file w2 < total_files w2
       \<and> (if current_file w = 0
          then current_file w1 = current_file w
             \<and> calls h1 = calls h @ [warningDisplay ''This is first file'']
          else current_file w1 = current_file w - 1)
       \<and> (if current_file w = total_files w - 1
          then current_file w2 = current_file w
             \<and> calls h2 = calls h @ [warningDisplay ''This is last file'']
          else current_file w2 = current_file w + 1)))
   \<and> (0 < total_files_iv v \<and> 0 \<le> current_file_iv v \<and> current_file_iv v < total_files_iv v \<longrightarrow>
     (let v1 = snd (final_state (onPre_iv h v)); h1 = fst (final_state (onPre_iv h v));
          v2 = snd (final_state (onNext_iv h v)); h2 = fst (final_state (onNext_iv h v))
      in has_returned (onPre_iv h v) \<and> has_returned (onNext_iv h v)
       \<and> total_files_iv v1 = total_files_iv v \<and> total_files_iv v2 = total_files_iv v
       \<and> 0 \<le> current_file_iv v1 \<and> current_file_iv v1 < total_files_iv v1
       \<and> 0 \<le> current_file_iv v2 \<and> current_file_iv v2 < total_files_iv v2
       \<and> (if current_file_iv v = 0
          then current_file_iv v1 = current_file_iv v
             \<and> calls h1 = calls h @ [warningDisplay ''This is first file'']
          else current_file_iv v1 = current_file_iv v - 1)
       \<and> (if current_file_iv v = total_files_iv v - 1
          then current_file_iv v2 = current_file_iv v
             \<and> calls h2 = calls h @ [warningDisplay ''This is last file'']
          else current_file_iv v2 = current_file_iv v + 1)))"
  by (auto simp: onPre_def onNext_def onPre_iv_def onNext_iv_def Let_def)

theorem navigation_invariant_witness:
  "current_file (snd (final_state (onPre demo_host (demo_es\<lparr>total_files := 3, current_file := 1\<rparr>)))) = 0
   \<and> current_file (snd (final_state (onNext demo_host (demo_es\<lparr>total_files := 3, current_file := 1\<rparr>)))) = 2
   \<and> current_file_iv (snd (final_state (onPre_iv demo_host demo_iv))) = 0
   \<and> calls (fst (final_state (onPre_iv demo_host demo_iv))) = [warningDisplay ''This is first file'']
   \<and> current_file_iv (snd (final_state (onNext_iv demo_host demo_iv))) = 1"
  using navigation_invariant [of "demo_es\<lparr>total_files := 3, current_file := 1\<rparr>" demo_host demo_iv]
  by (simp add: Let_def demo_iv_def demo_host_def)

section \<open>EasySegmentationWidget: the threshold segment\<close>







section \<open>EasySegmentationWidget: saving the segmentation\<close>

lemma export_node_effect:
  "path \<in> set (files (export_node h w node path))"
  "dirs (export_node h w node path) = dirs h"
  "calls (export_node h w node path)
     = calls h @ [if 5 \<le> slicer_majorVersion w \<and> 2 \<le> slicer_minorVersion w
                  then exportNode node path else saveNode node path]"
  "set (files h) \<subseteq> set (files (export_node h w node path))"
  by (auto simp: export_node_def Let_def call_def create_file_def)

lemma call_keeps [simp]:
  "dirs (call a h) = dirs h"
  by (simp add: call_def)

lemma onSave_image_keeps:
  assumes "py_index (fileset w) (current_file w) = Some pair"
    and "currentVolumeNode w = Some vol"
  shows "\<exists>h1. onSave_image h w = Returned (h1, w)
     \<and> set (dirs h) \<subseteq> set (dirs h1) \<and> set (files h) \<subseteq> set (files h1)"
proof -
  let ?d = "os_path_join (saveDirectory w) ''image''"
  let ?h1 = "if \<not> os_path_exists h ?d then os_makedirs ?d h else h"
  let ?p = "os_path_join ?d (find_basename_wo_extension (fst pair) @ ''.nii.gz'')"
  let ?h2 = "export_node ?h1 w (ExportedVolume vol) ?p"
  have run: "onSave_image h w = Returned (?h2, w)"
    using assms by (simp add: onSave_image_def Let_def)
  have "set (dirs h) \<subseteq> set (dirs ?h1)" "set (files h) \<subseteq> set (files ?h1)"
    by (auto simp: os_makedirs_def)
  moreover have "dirs ?h2 = dirs ?h1" "set (files ?h1) \<subseteq> set (files ?h2)"
    by (rule export_node_effect)+
  ultimately have "set (dirs h) \<subseteq> set (dirs ?h2)" "set (files h) \<subseteq> set (files ?h2)"
    by auto
  with run show ?thesis by blast
qed

lemma onSave_segmentation_effect:
  assumes "py_index (fileset w) (current_file w) = Some (image_file, seg_file)"
    and "currentSegNode w = Some node"
  defines "seg_directory \<equiv> os_path_join (saveDirectory w) ''segmentation''"
  defines "seg_path \<equiv> os_path_join seg_directory
     (find_basename_wo_extension
        (if seg_file \<noteq> '''' then os_path_basename seg_file else segmentation_name node)
      @ (if suffixButton_checked w then suffixBox_text w else '''') @ ''.nii.gz'')"
  shows "\<exists>h'. onSave_segmentation h w = Returned (h', w)
     \<and> os_path_exists h' seg_directory
     \<and> (\<not> os_path_exists h seg_directory \<longrightarrow> seg_directory \<in> set (dirs h'))
     \<and> seg_path \<in> set (files h')
     \<and> calls h' = calls h @
         [AddNewNodeByClass ''vtkMRMLLabelMapVolumeNode'',
          ExportAllSegmentsToLabelmapNode node,
          if 5 \<le> slicer_majorVersion w \<and> 2 \<le> slicer_minorVersion w
          then exportNode (ExportedLabelmap node) seg_path
          else saveNode (ExportedLabelmap node) seg_path,
          mrmlScene_RemoveNode LabelmapColorNode,
          mrmlScene_RemoveNode LabelmapVolumeNode]"
proof -
  let ?h1 = "if \<not> os_path_exists h seg_directory then os_makedirs seg_directory h else h"
  let ?h3 = "call (ExportAllSegmentsToLabelmapNode node)
               (call (AddNewNodeByClass ''vtkMRMLLabelMapVolumeNode'') ?h1)"
  let ?h4 = "export_node ?h3 w (ExportedLabelmap node) seg_path"
  let ?h' = "call (mrmlScene_RemoveNode LabelmapVolumeNode)
               (call (mrmlScene_RemoveNode LabelmapColorNode) ?h4)"
  have run: "onSave_segmentation h w = Returned (?h', w)"
    using assms(1,2) unfolding seg_path_def seg_directory_def
    by (simp add: onSave_segmentation_def Let_def)
  have d1: "os_path_exists ?h1 seg_directory"
    "\<not> os_path_exists h seg_directory \<longrightarrow> seg_directory \<in> set (dirs ?h1)"
    by (auto simp: os_path_exists_def os_makedirs_def)
  have c1: "calls ?h1 = calls h" by (simp add: os_makedirs_def)
  have "dirs ?h' = dirs ?h1" "set (files ?h1) \<subseteq> set (files ?h')"
    using export_node_effect(2,4) [of ?h3 w "ExportedLabelmap node" seg_path]
    by simp_all
  with d1 have ex: "os_path_exists ?h' seg_directory"
    "\<not> os_path_exists h seg_directory \<longrightarrow> seg_directory \<in> set (dirs ?h')"
    by (auto simp: os_path_exists_def)
  have f: "seg_path \<in> set (files ?h')"
    using export_node_effect(1) [of seg_path ?h3 w "ExportedLabelmap node"] by simp
  have c: "calls ?h' = calls h @
         [AddNewNodeByClass ''vtkMRMLLabelMapVolumeNode'',
          ExportAllSegmentsToLabelmapNode node,
          if 5 \<le> slicer_majorVersion w \<and> 2 \<le> slicer_minorVersion w
          then exportNode (ExportedLabelmap node) seg_path
          else saveNode (ExportedLabelmap node) seg_path,
          mrmlScene_RemoveNode LabelmapColorNode,
          mrmlScene_RemoveNode LabelmapVolumeNode]"
    using export_node_effect(3) [of ?h3 w "ExportedLabelmap node" seg_path] c1 by simp
  show ?thesis using run ex f c by blast
qed

lemma basename_no_slash_in: "CHR ''/'' \<notin> set (os_path_basename p)"
proof
  assume "CHR ''/'' \<in> set (os_path_basename p)"
  then have "CHR ''/'' \<in> set (takeWhile (\<lambda>c. c \<noteq> CHR ''/'') (rev p))"
    by (simp add: os_path_basename_def)
  then show False by (auto dest: set_takeWhileD)
qed

lemma find_basename_loop_subset:
  "set (find_basename_loop ts b) \<subseteq> set b"
  by (induction ts) (auto simp: py_slice_to_def dest: in_set_takeD)

lemma find_basename_no_slash: "CHR ''/'' \<notin> set (find_basename_wo_extension p)"
  using find_basename_loop_subset [of file_types "os_path_basename p"] basename_no_slash_in [of p]
  by (auto simp: find_basename_wo_extension_def)

lemma join_relative:
  "\<not> prefix ''/'' b \<Longrightarrow>
   os_path_join a b = (if a = [] \<or> suffix ''/'' a then a else a @ ''/'') @ b"
  by (simp add: os_path_join_def)

lemma image_paths_not_segmentation:
  fixes S n
  defines "seg_directory \<equiv> os_path_join S ''segmentation''"
  defines "volume_directory \<equiv> os_path_join S ''image''"
  assumes "CHR ''/'' \<notin> set n"
  shows "volume_directory \<noteq> seg_directory"
    and "os_path_join volume_directory (n @ ''.nii.gz'') \<noteq> seg_directory"
proof -
  let ?S = "(if S = [] \<or> suffix ''/'' S then S else S @ ''/'')"
  have v: "volume_directory = ?S @ ''image''" and s: "seg_directory = ?S @ ''segmentation''"
    unfolding volume_directory_def seg_directory_def by (simp_all add: join_relative)
  show "volume_directory \<noteq> seg_directory"
    unfolding v s by simp
  have "\<not> prefix ''/'' (n @ ''.nii.gz'')"
    using assms(3) by (cases n) auto
  then have "os_path_join volume_directory (n @ ''.nii.gz'')
     = ?S @ ''image'' @ (if suffix ''/'' (?S @ ''image'') then [] else ''/'') @ n @ ''.nii.gz''"
    unfolding v by (simp add: join_relative)
  then show "os_path_join volume_directory (n @ ''.nii.gz'') \<noteq> seg_directory"
    unfolding s by simp
qed

lemma onSave_image_exists:
  assumes "py_index (fileset w) (current_file w) = Some pair"
    and "currentVolumeNode w = Some vol"
  shows "\<exists>h1 before. onSave_image h w = Returned (h1, w)
     \<and> calls h1 = calls h @ before
     \<and> (os_path_exists h1 (os_path_join (saveDirectory w) ''segmentation'')
          \<longleftrightarrow> os_path_exists h (os_path_join (saveDirectory w) ''segmentation''))"
proof -
  let ?d = "os_path_join (saveDirectory w) ''image''"
  let ?s = "os_path_join (saveDirectory w) ''segmentation''"
  let ?h1 = "if \<not> os_path_exists h ?d then os_makedirs ?d h else h"
  let ?p = "os_path_join ?d (find_basename_wo_extension (fst pair) @ ''.nii.gz'')"
  let ?h2 = "export_node ?h1 w (ExportedVolume vol) ?p"
  have run: "onSave_image h w = Returned (?h2, w)"
    using assms by (simp add: onSave_image_def Let_def)
  note ne = image_paths_not_segmentation [where S = "saveDirectory w"
      and n = "find_basename_wo_extension (fst pair)", OF find_basename_no_slash]
  have "os_path_exists ?h1 ?s \<longleftrightarrow> os_path_exists h ?s"
    using ne(1) by (auto simp: os_path_exists_def os_makedirs_def)
  moreover have "os_path_exists ?h2 ?s \<longleftrightarrow> os_path_exists ?h1 ?s"
    using ne(2) by (auto simp: os_path_exists_def export_node_def Let_def call_def create_file_def)
  moreover have "calls ?h2 = calls h @ [if 5 \<le> slicer_majorVersion w \<and> 2 \<le> slicer_minorVersion w
                  then exportNode (ExportedVolume vol) ?p else saveNode (ExportedVolume vol) ?p]"
    by (simp add: export_node_effect(3) os_makedirs_def)
  ultimately show ?thesis using run by blast
qed

text \<open>
  C5, as amended. With a destination folder, \<open>total_files > 0\<close>, the Segmentation box
  checked, a current pair and a current segmentation node (and a current volume when the
  Image box is checked too), \<open>onSave\<close> returns; the directory \<open>segmentation\<close> under
  \<open>saveDirectory\<close> exists afterwards and is made when it did not exist; and the last host
  calls are: a new labelmap volume node, the export of all segments of the current
  segmentation into it, the export of that node to the file \<open>name @ suffix @ .nii.gz\<close> in
  that directory, and the removal of the labelmap's colour node and of the labelmap node.
  Here \<open>name\<close> is \<open>find_basename_wo_extension\<close> of the paired segmentation file's basename,
  or of the segmentation node's name when the pair has no segmentation file (the text cut
  before its first \<open>.nrrd\<close>, or else before its first \<open>.nii\<close>), and \<open>suffix\<close> is the text of
  the suffix box when the suffix button is checked and empty otherwise.
\<close>

theorem onSave_segmentation_export:
  fixes h w image_file seg_file node
  defines "seg_directory \<equiv> os_path_join (saveDirectory w) ''segmentation''"
  defines "seg_path \<equiv> os_path_join seg_directory
     (find_basename_wo_extension
        (if seg_file \<noteq> '''' then os_path_basename seg_file else segmentation_name node)
      @ (if suffixButton_checked w then suffixBox_text w else '''') @ ''.nii.gz'')"
  assumes "saveDirectory w \<noteq> ''''" and "0 < total_files w" and "SegCheck_checked w"
    and "py_index (fileset w) (current_file w) = Some (image_file, seg_file)"
    and "currentSegNode w = Some node"
    and "ImageCheck_checked w \<longrightarrow> currentVolumeNode w \<noteq> None"
  shows "\<exists>h' before. onSave h w = Returned (h', w)
     \<and> os_path_exists h' seg_directory
     \<and> (\<not> os_path_exists h seg_directory \<longrightarrow> seg_directory \<in> set (dirs h'))
     \<and> seg_path \<in> set (files h')
     \<and> calls h' = calls h @ before @
         [AddNewNodeByClass ''vtkMRMLLabelMapVolumeNode'',
          ExportAllSegmentsToLabelmapNode node,
          if 5 \<le> slicer_majorVersion w \<and> 2 \<le> slicer_minorVersion w
          then exportNode (ExportedLabelmap node) seg_path
          else saveNode (ExportedLabelmap node) seg_path,
          mrmlScene_RemoveNode LabelmapColorNode,
          mrmlScene_RemoveNode LabelmapVolumeNode]"
proof -
  obtain h1 before where h1:
    "(if ImageCheck_checked w then onSave_image h w else Returned (h, w)) = Returned (h1, w)"
    "calls h1 = calls h @ before"
    "os_path_exists h1 seg_directory \<longleftrightarrow> os_path_exists h seg_directory"
  proof (cases "ImageCheck_checked w")
    case True
    with assms(8) obtain vol where "currentVolumeNode w = Some vol" by auto
    from onSave_image_exists [OF assms(6) this, of h] True that show ?thesis
      unfolding seg_directory_def by auto
  next
    case False
    then show ?thesis using that [of h "[]"] by simp
  qed
  from onSave_segmentation_effect [OF assms(6,7), of h1] obtain h' where h':
    "onSave_segmentation h1 w = Returned (h', w)"
    "os_path_exists h' seg_directory"
    "\<not> os_path_exists h1 seg_directory \<longrightarrow> seg_directory \<in> set (dirs h')"
    "seg_path \<in> set (files h')"
    "calls h' = calls h1 @
         [AddNewNodeByClass ''vtkMRMLLabelMapVolumeNode'',
          ExportAllSegmentsToLabelmapNode node,
          if 5 \<le> slicer_majorVersion w \<and> 2 \<le> slicer_minorVersion w
          then exportNode (ExportedLabelmap node) seg_path
          else saveNode (ExportedLabelmap node) seg_path,
          mrmlScene_RemoveNode LabelmapColorNode,
          mrmlScene_RemoveNode LabelmapVolumeNode]"
    unfolding seg_directory_def seg_path_def by blast
  have run: "onSave h w = Returned (h', w)"
    using assms(3,4,5) h1(1) h'(1) by (simp add: onSave_def)
  show ?thesis
    using run h'(2,3,4,5) h1(2,3) by auto
qed

lemma demo_save_eval:
  "os_path_join (saveDirectory demo_es_loaded) ''segmentation'' = ''/out/segmentation''"
  "os_path_join (os_path_join (saveDirectory demo_es_loaded) ''segmentation'')
     (find_basename_wo_extension
        (if ''/segs/case1.nii.seg.nii.gz'' \<noteq> ''''
         then os_path_basename ''/segs/case1.nii.seg.nii.gz''
         else segmentation_name demo_segmentation)
      @ (if suffixButton_checked demo_es_loaded then suffixBox_text demo_es_loaded else '''')
      @ ''.nii.gz'') = ''/out/segmentation/case1_seg.nii.gz''"
  "\<not> os_path_exists demo_host ''/out/segmentation''"
  by code_simp+

lemma demo_save_hyps:
  "saveDirectory demo_es_loaded \<noteq> ''''" "0 < total_files demo_es_loaded"
  "SegCheck_checked demo_es_loaded"
  "py_index (fileset demo_es_loaded) (current_file demo_es_loaded)
     = Some (''/imgs/case1.nii.gz'', ''/segs/case1.nii.seg.nii.gz'')"
  "currentSegNode demo_es_loaded = Some demo_segmentation"
  "ImageCheck_checked demo_es_loaded \<longrightarrow> currentVolumeNode demo_es_loaded \<noteq> None"
  by (simp_all add: demo_es_loaded_def demo_es_def py_index_def)

theorem onSave_segmentation_export_witness:
  "\<exists>h'. onSave demo_host demo_es_loaded = Returned (h', demo_es_loaded)
     \<and> ''/out/segmentation'' \<in> set (dirs h')
     \<and> ''/out/segmentation/case1_seg.nii.gz'' \<in> set (files h')"
proof -
  from onSave_segmentation_export [OF demo_save_hyps, of demo_host] obtain h' where
    "onSave demo_host demo_es_loaded = Returned (h', demo_es_loaded)"
    "\<not> os_path_exists demo_host (os_path_join (saveDirectory demo_es_loaded) ''segmentation'')
       \<longrightarrow> os_path_join (saveDirectory demo_es_loaded) ''segmentation'' \<in> set (dirs h')"
    "os_path_join (os_path_join (saveDirectory demo_es_loaded) ''segmentation'')
     (find_basename_wo_extension
        (if ''/segs/case1.nii.seg.nii.gz'' \<noteq> ''''
         then os_path_basename ''/segs/case1.nii.seg.nii.gz''
         else segmentation_name demo_segmentation)
      @ (if suffixButton_checked demo_es_loaded then suffixBox_text demo_es_loaded else '''')
      @ ''.nii.gz'') \<in> set (files h')"
    by blast
  then show ?thesis
    unfolding demo_save_eval(2) unfolding demo_save_eval(1) using demo_save_eval(3) by blast
qed

text \<open>
  C5 as it is written takes the extension off the segmentation file's basename: for
  \<open>case1.nii.seg.nii.gz\<close> and the suffix \<open>_seg\<close> that is \<open>case1.nii.seg_seg.nii.gz\<close>. The
  handler exports to \<open>case1_seg.nii.gz\<close>.
\<close>

theorem onSave_segmentation_export_counterexample:
  "calls (fst (final_state (onSave demo_host demo_es_loaded)))
     = [AddNewNodeByClass ''vtkMRMLLabelMapVolumeNode'',
        ExportAllSegmentsToLabelmapNode demo_segmentation,
        exportNode (ExportedLabelmap demo_segmentation) ''/out/segmentation/case1_seg.nii.gz'',
        mrmlScene_RemoveNode LabelmapColorNode,
        mrmlScene_RemoveNode LabelmapVolumeNode]
   \<and> os_path_join (os_path_join ''/out'' ''segmentation'')
       (basename_without_extension_spec ''/segs/case1.nii.seg.nii.gz'' @ ''_seg'' @ ''.nii.gz'')
     = ''/out/segmentation/case1.nii.seg_seg.nii.gz''"
proof -
  have spec: "os_path_join (os_path_join ''/out'' ''segmentation'')
       (basename_without_extension_spec ''/segs/case1.nii.seg.nii.gz'' @ ''_seg'' @ ''.nii.gz'')
     = ''/out/segmentation/case1.nii.seg_seg.nii.gz''"
    by code_simp
  have "\<not> ImageCheck_checked demo_es_loaded"
    by (simp add: demo_es_loaded_def demo_es_def)
  then have run: "onSave demo_host demo_es_loaded = onSave_segmentation demo_host demo_es_loaded"
    using demo_save_hyps(1,2,3) by (simp add: onSave_def)
  have v: "5 \<le> slicer_majorVersion demo_es_loaded \<and> 2 \<le> slicer_minorVersion demo_es_loaded"
    by (simp add: demo_es_loaded_def demo_es_def)
  have c0: "calls demo_host = []" by (simp add: demo_host_def)
  from onSave_segmentation_effect [OF demo_save_hyps(4,5), of demo_host] obtain h' where
    "onSave_segmentation demo_host demo_es_loaded = Returned (h', demo_es_loaded)"
    "calls h' = calls demo_host @
         [AddNewNodeByClass ''vtkMRMLLabelMapVolumeNode'',
          ExportAllSegmentsToLabelmapNode demo_segmentation,
          if 5 \<le> slicer_majorVersion demo_es_loaded \<and> 2 \<le> slicer_minorVersion demo_es_loaded
          then exportNode (ExportedLabelmap demo_segmentation)
            (os_path_join (os_path_join (saveDirectory demo_es_loaded) ''segmentation'')
              (find_basename_wo_extension
                (if ''/segs/case1.nii.seg.nii.gz'' \<noteq> ''''
                 then os_path_basename ''/segs/case1.nii.seg.nii.gz''
                 else segmentation_name demo_segmentation)
               @ (if suffixButton_checked demo_es_loaded then suffixBox_text demo_es_loaded
                  else '''')
               @ ''.nii.gz''))
          else saveNode (ExportedLabelmap demo_segmentation)
            (os_path_join (os_path_join (saveDirectory demo_es_loaded) ''segmentation'')
              (find_basename_wo_extension
                (if ''/segs/case1.nii.seg.nii.gz'' \<noteq> ''''
                 then os_path_basename ''/segs/case1.nii.seg.nii.gz''
                 else segmentation_name demo_segmentation)
               @ (if suffixButton_checked demo_es_loaded then suffixBox_text demo_es_loaded
                  else '''')
               @ ''.nii.gz'')),
          mrmlScene_RemoveNode LabelmapColorNode,
          mrmlScene_RemoveNode LabelmapVolumeNode]"
    by blast
  then have "calls (fst (final_state (onSave demo_host demo_es_loaded)))
     = [AddNewNodeByClass ''vtkMRMLLabelMapVolumeNode'',
        ExportAllSegmentsToLabelmapNode demo_segmentation,
        exportNode (ExportedLabelmap demo_segmentation) ''/out/segmentation/case1_seg.nii.gz'',
        mrmlScene_RemoveNode LabelmapColorNode,
        mrmlScene_RemoveNode LabelmapVolumeNode]"
    unfolding demo_save_eval(2) run using v c0 by simp
  with spec show ?thesis by blast
qed

end
